theory Spec2Isabelle
  imports Complex_Main
begin

section \<open>Python values\<close>

text \<open>
  The client handles decoded JSON documents and plain Python values. A Python \<open>str\<close> is a
  \<open>string\<close>; text outside ASCII is the list of its UTF-8 bytes. A \<open>float\<close> is the real
  number it denotes, or one of the three non-finite values. A \<open>dict\<close> with string keys is
  an association list in insertion order; the keys of a well-formed dict are distinct.
\<close>

datatype pyfloat = Finite real | PosInf | NegInf | NaN

datatype pyval =
    PNone
  | PBool bool
  | PInt int
  | PFloat pyfloat
  | PStr string
  | PList "pyval list"
  | PTuple "pyval list"
  | PDict "(string \<times> pyval) list"

text \<open>
  Library functions whose results the model does not compute are parameters, collected in
  one record: \<open>hashlib.md5(b).hexdigest()\<close>, \<open>repr\<close>, the string escaping of
  \<open>json.dumps\<close>, the conversion \<open>float(s)\<close> of a string, the conversion \<open>float(n)\<close>
  of an integer beyond \<open>2^53\<close> (which rounds, or overflows), the conversion \<open>int(s)\<close>
  of a string that is not short ASCII text, and of the validation library the parsing
  of a string into a \<open>float\<close> field and into an \<open>int\<close> field and the text of a
  validation error, given the fields that failed. \<open>None\<close> is an input that the
  function refuses.
\<close>

record pylib =
  md5_hexdigest :: "string \<Rightarrow> string"
  py_repr :: "pyval \<Rightarrow> string"
  json_string :: "string \<Rightarrow> string"
  float_of_str :: "string \<Rightarrow> pyfloat option"
  float_of_int :: "int \<Rightarrow> pyfloat option"
  int_of_str_ext :: "string \<Rightarrow> int option"
  pyd_float_of_str :: "string \<Rightarrow> pyfloat option"
  pyd_int_of_str :: "string \<Rightarrow> int option"
  pyd_error_str :: "string list \<Rightarrow> string"

text \<open>\<open>str(v)\<close>: a string is itself, every other value prints as its \<open>repr\<close>.\<close>

definition py_str :: "pylib \<Rightarrow> pyval \<Rightarrow> string" where
  "py_str L v = (case v of PStr s \<Rightarrow> s | _ \<Rightarrow> py_repr L v)"

text \<open>Truth value of an object, as \<open>if v\<close> and \<open>v or d\<close> test it.\<close>

definition py_truthy :: "pyval \<Rightarrow> bool" where
  "py_truthy v =
     (case v of
        PNone \<Rightarrow> False
      | PBool b \<Rightarrow> b
      | PInt n \<Rightarrow> n \<noteq> 0
      | PFloat f \<Rightarrow> f \<noteq> Finite 0
      | PStr s \<Rightarrow> s \<noteq> []
      | PList xs \<Rightarrow> xs \<noteq> []
      | PTuple xs \<Rightarrow> xs \<noteq> []
      | PDict kvs \<Rightarrow> kvs \<noteq> [])"

text \<open>\<open>v == k\<close> for an integer literal \<open>k\<close>: numbers compare by value, \<open>True\<close> is 1.\<close>

definition py_eq_int :: "pyval \<Rightarrow> int \<Rightarrow> bool" where
  "py_eq_int v k =
     (case v of
        PInt n \<Rightarrow> n = k
      | PBool b \<Rightarrow> (if b then 1 else 0) = k
      | PFloat f \<Rightarrow> f = Finite (of_int k)
      | _ \<Rightarrow> False)"

text \<open>\<open>d.get(key, default)\<close> on a dict.\<close>

definition dict_get :: "(string \<times> 'a) list \<Rightarrow> string \<Rightarrow> 'a \<Rightarrow> 'a" where
  "dict_get kvs k d = (case map_of kvs k of None \<Rightarrow> d | Some v \<Rightarrow> v)"

text \<open>\<open>s.lower()\<close>, on the ASCII letters.\<close>

definition lower_char :: "char \<Rightarrow> char" where
  "lower_char c =
     (if 65 \<le> (of_char c :: nat) \<and> (of_char c :: nat) \<le> 90
      then char_of ((of_char c :: nat) + 32) else c)"

definition str_lower :: "string \<Rightarrow> string" where
  "str_lower s = map lower_char s"

text \<open>\<open>sep.join(xs)\<close>.\<close>

fun str_join :: "string \<Rightarrow> string list \<Rightarrow> string" where
  "str_join sep [] = []"
| "str_join sep [x] = x"
| "str_join sep (x # y # ys) = x @ sep @ str_join sep (y # ys)"

text \<open>\<open>sub in s\<close> for strings.\<close>

fun str_contains :: "string \<Rightarrow> string \<Rightarrow> bool" where
  "str_contains sub [] = (sub = [])"
| "str_contains sub (c # cs) = (take (length sub) (c # cs) = sub \<or> str_contains sub cs)"

text \<open>
  \<open>str(n)\<close> for an integer: decimal digits, most significant first, with a minus sign
  for a negative number.
\<close>

definition digit_char :: "nat \<Rightarrow> char" where
  "digit_char d = ''0123456789'' ! (d mod 10)"

fun str_nat :: "nat \<Rightarrow> string" where
  "str_nat n = (if n < 10 then [digit_char n] else str_nat (n div 10) @ [digit_char n])"

declare str_nat.simps [simp del]

definition str_int :: "int \<Rightarrow> string" where
  "str_int i = (if i < 0 then CHR ''-'' # str_nat (nat (- i)) else str_nat (nat i))"

text \<open>
  \<open>int(s)\<close> for a string, base ten. On ASCII text of at most 4300 characters, which
  stays below the interpreter's cap on the number of digits: surrounding white space is
  dropped, then an optional sign, then decimal digits, where single underscores may
  separate digits. Every other string (digits and white space outside ASCII, longer
  text) is left to the library. \<open>None\<close> is the \<open>ValueError\<close>.
\<close>

definition is_py_space :: "char \<Rightarrow> bool" where
  "is_py_space c = ((of_char c :: nat) \<in> set ([9, 10, 11, 12, 13, 28, 29, 30, 31, 32]))"

definition is_digit :: "char \<Rightarrow> bool" where
  "is_digit c = (48 \<le> (of_char c :: nat) \<and> (of_char c :: nat) \<le> 57)"

definition digit_val :: "char \<Rightarrow> nat" where
  "digit_val c = (of_char c :: nat) - 48"

definition str_strip :: "string \<Rightarrow> string" where
  "str_strip s = rev (dropWhile is_py_space (rev (dropWhile is_py_space s)))"

fun dec_body :: "nat \<Rightarrow> string \<Rightarrow> nat option" where
  "dec_body acc [] = Some acc"
| "dec_body acc (c # cs) =
     (if is_digit c then dec_body (10 * acc + digit_val c) cs
      else if c = CHR ''_'' \<and> cs \<noteq> [] \<and> is_digit (hd cs) then dec_body acc cs
      else None)"

definition dec_number :: "string \<Rightarrow> nat option" where
  "dec_number s =
     (case s of
        [] \<Rightarrow> None
      | c # cs \<Rightarrow> if is_digit c then dec_body (digit_val c) cs else None)"

definition ascii_int_of_str :: "string \<Rightarrow> int option" where
  "ascii_int_of_str s =
     (case str_strip s of
        [] \<Rightarrow> None
      | c # cs \<Rightarrow>
          if c = CHR ''-'' then map_option (\<lambda>n. - int n) (dec_number cs)
          else if c = CHR ''+'' then map_option int (dec_number cs)
          else map_option int (dec_number (c # cs)))"

definition is_ascii :: "char \<Rightarrow> bool" where
  "is_ascii c = ((of_char c :: nat) < 128)"

definition short_ascii :: "string \<Rightarrow> bool" where
  "short_ascii s = (list_all is_ascii s \<and> length s \<le> 4300)"

definition int_of_str :: "pylib \<Rightarrow> string \<Rightarrow> int option" where
  "int_of_str L s = (if short_ascii s then ascii_int_of_str s else int_of_str_ext L s)"

section \<open>HTTP transport values\<close>

text \<open>
  What the classifier reads of an \<open>httpx\<close> response: the status, the headers (looked up
  without regard to case, the values of a repeated header joined by a comma and a space),
  the decoded body (\<open>None\<close> when \<open>response.json()\<close> raises) and the raw text.
\<close>

record response =
  status_code :: int
  headers :: "(string \<times> string) list"
  json_body :: "pyval option"
  text_body :: string

definition headers_get :: "(string \<times> string) list \<Rightarrow> string \<Rightarrow> string option" where
  "headers_get hs k =
     (let vs = map snd (filter (\<lambda>(n, v). str_lower n = str_lower k) hs)
      in if vs = [] then None else Some (str_join '', '' vs))"

text \<open>
  The exceptions \<open>_request\<close> can catch, each with its \<open>str(error)\<close>. \<open>ConnectError\<close> is a
  subclass of \<open>NetworkError\<close>; \<open>OtherException\<close> stands for every class the classifier does
  not test for.
\<close>

datatype py_exception =
    ConnectError string
  | NetworkError string
  | TimeoutException string
  | HTTPStatusError string response
  | OtherException string

section \<open>Domain errors (utils/errors.py)\<close>

text \<open>
  The error classes. The class is the \<open>kind\<close>, with the attributes a subclass adds; the
  attributes of the base class are the record's fields. The creation time stamp, read
  from the wall clock, is left out.
\<close>

datatype error_kind =
    Base
  | Authentication
  | Api "string option" "string option" pyval
  | Network
  | Validation "string option"
  | Signature
  | RateLimit "int option"

record mexc_error =
  kind :: error_kind
  message :: pyval
  code :: pyval
  status :: "int option"
  original_error :: "py_exception option"

definition MexcFuturesError ::
  "pyval \<Rightarrow> pyval \<Rightarrow> int option \<Rightarrow> py_exception option \<Rightarrow> mexc_error" where
  "MexcFuturesError m c sc orig =
     \<lparr>kind = Base, message = m, code = c, status = sc, original_error = orig\<rparr>"

definition MexcAuthenticationError :: "pyval \<Rightarrow> py_exception option \<Rightarrow> mexc_error" where
  "MexcAuthenticationError m orig =
     (MexcFuturesError
        (if py_truthy m then m
         else PStr ''Authentication failed. Please check your authorization token.'')
        (PStr ''AUTH_ERROR'') (Some 401) orig) \<lparr>kind := Authentication\<rparr>"

definition MexcApiError ::
  "pyval \<Rightarrow> pyval \<Rightarrow> int \<Rightarrow> string option \<Rightarrow> string option \<Rightarrow> pyval \<Rightarrow>
   py_exception option \<Rightarrow> mexc_error" where
  "MexcApiError m c sc endpoint method response_data orig =
     (MexcFuturesError m c (Some sc) orig) \<lparr>kind := Api endpoint method response_data\<rparr>"

definition MexcNetworkError :: "pyval \<Rightarrow> py_exception option \<Rightarrow> mexc_error" where
  "MexcNetworkError m orig =
     (MexcFuturesError m (PStr ''NETWORK_ERROR'') None orig) \<lparr>kind := Network\<rparr>"

definition MexcValidationError :: "pyval \<Rightarrow> string option \<Rightarrow> mexc_error" where
  "MexcValidationError m field =
     (MexcFuturesError m (PStr ''VALIDATION_ERROR'') None None) \<lparr>kind := Validation field\<rparr>"

definition MexcSignatureError :: "pyval \<Rightarrow> py_exception option \<Rightarrow> mexc_error" where
  "MexcSignatureError m orig =
     (MexcFuturesError
        (if py_truthy m then m else PStr ''Request signature verification failed'')
        (PStr ''SIGNATURE_ERROR'') (Some 602) orig) \<lparr>kind := Signature\<rparr>"

definition MexcRateLimitError ::
  "pyval \<Rightarrow> int option \<Rightarrow> py_exception option \<Rightarrow> mexc_error" where
  "MexcRateLimitError m retry_after orig =
     (MexcFuturesError m (PStr ''RATE_LIMIT'') (Some 429) orig) \<lparr>kind := RateLimit retry_after\<rparr>"

text \<open>The cross mark that opens every user-facing message, as its three UTF-8 bytes.\<close>

definition cross_mark :: string where
  "cross_mark = [CHR 0xE2, CHR 0x9D, CHR 0x8C]"

definition auth_expired_text :: string where
  "auth_expired_text =
     cross_mark @ '' Authentication failed. Your authorization token may be expired or invalid. ''
       @ ''Please update your WEB token from browser Developer Tools.''"

text \<open>\<open>MexcAuthenticationError.get_user_friendly_message\<close>.\<close>

definition auth_user_friendly_message :: "pylib \<Rightarrow> mexc_error \<Rightarrow> string" where
  "auth_user_friendly_message L e =
     (if py_eq_int (code e) 401 then auth_expired_text
      else cross_mark @ '' Authentication error: '' @ py_str L (message e))"

text \<open>
  The exceptions that are not domain errors: those of the built-in conversions, and the
  validation library's, with the names of the fields that failed.
\<close>

datatype raised = ValueError | TypeError | OverflowError | ValidationError "string list"

text \<open>
  \<open>parse_httpx_error\<close>. The tests follow the source's order: connection errors, time-outs,
  then HTTP status errors, where 401 and 429 are decided before the signature test.
\<close>

definition parse_httpx_error ::
  "pylib \<Rightarrow> py_exception \<Rightarrow> string option \<Rightarrow> string option \<Rightarrow> raised + mexc_error" where
  "parse_httpx_error L error endpoint method =
     (case error of
        ConnectError s \<Rightarrow> Inr (MexcNetworkError (PStr s) (Some error))
      | NetworkError s \<Rightarrow> Inr (MexcNetworkError (PStr s) (Some error))
      | TimeoutException s \<Rightarrow> Inr (MexcNetworkError (PStr ''Request timeout'') (Some error))
      | HTTPStatusError s resp \<Rightarrow>
          (let sc = status_code resp;
               (msg, cd) =
                 (case json_body resp of
                    Some (PDict kvs) \<Rightarrow>
                      (dict_get kvs ''message'' (PStr s), dict_get kvs ''code'' (PInt sc))
                  | _ \<Rightarrow> (PStr s, PInt sc))
           in if sc = 401 then Inr (MexcAuthenticationError msg (Some error))
              else if sc = 429 then
                (case headers_get (headers resp) ''retry-after'' of
                   None \<Rightarrow> Inr (MexcRateLimitError msg None (Some error))
                 | Some ra \<Rightarrow>
                     if ra = [] then Inr (MexcRateLimitError msg None (Some error))
                     else (case int_of_str L ra of
                             None \<Rightarrow> Inl ValueError
                           | Some n \<Rightarrow> Inr (MexcRateLimitError msg (Some n) (Some error))))
              else if py_eq_int cd 602 \<or> str_contains ''signature'' (str_lower (py_str L msg))
                then Inr (MexcSignatureError msg (Some error))
              else Inr (MexcApiError msg cd sc endpoint method
                          (case json_body resp of Some j \<Rightarrow> j | None \<Rightarrow> PStr (text_body resp))
                          (Some error)))
      | OtherException s \<Rightarrow>
          Inr (MexcFuturesError (PStr s) (PStr ''UNKNOWN_ERROR'') None (Some error)))"

section \<open>Request signing and headers (utils/headers.py)\<close>

text \<open>
  \<open>json.dumps(obj, separators=(item_sep, key_sep))\<close> on the values above: a list and a
  tuple print as an array, a dict prints its items in their order, a non-finite float
  prints as the library's \<open>Infinity\<close>, \<open>-Infinity\<close> and \<open>NaN\<close>.
\<close>

fun json_dumps :: "pylib \<Rightarrow> string \<Rightarrow> string \<Rightarrow> pyval \<Rightarrow> string" where
  "json_dumps L item_sep key_sep PNone = ''null''"
| "json_dumps L item_sep key_sep (PBool b) = (if b then ''true'' else ''false'')"
| "json_dumps L item_sep key_sep (PInt n) = str_int n"
| "json_dumps L item_sep key_sep (PFloat f) =
     (case f of
        Finite r \<Rightarrow> py_repr L (PFloat f)
      | PosInf \<Rightarrow> ''Infinity''
      | NegInf \<Rightarrow> ''-Infinity''
      | NaN \<Rightarrow> ''NaN'')"
| "json_dumps L item_sep key_sep (PStr s) = json_string L s"
| "json_dumps L item_sep key_sep (PList xs) =
     ''['' @ str_join item_sep (map (json_dumps L item_sep key_sep) xs) @ '']''"
| "json_dumps L item_sep key_sep (PTuple xs) =
     ''['' @ str_join item_sep (map (json_dumps L item_sep key_sep) xs) @ '']''"
| "json_dumps L item_sep key_sep (PDict kvs) =
     ''{'' @ str_join item_sep
              (map (\<lambda>(k, v). json_string L k @ key_sep @ json_dumps L item_sep key_sep v) kvs)
       @ ''}''"

text \<open>
  The compact serialisation in the specification's words: the members of an object in
  the order they have, joined by a bare comma, a key and its value joined by a bare
  colon, nothing else between the tokens.
\<close>

fun compact_json :: "pylib \<Rightarrow> pyval \<Rightarrow> string" where
  "compact_json L PNone = ''null''"
| "compact_json L (PBool b) = (if b then ''true'' else ''false'')"
| "compact_json L (PInt n) = str_int n"
| "compact_json L (PFloat f) =
     (case f of
        Finite r \<Rightarrow> py_repr L (PFloat f)
      | PosInf \<Rightarrow> ''Infinity''
      | NegInf \<Rightarrow> ''-Infinity''
      | NaN \<Rightarrow> ''NaN'')"
| "compact_json L (PStr s) = json_string L s"
| "compact_json L (PList xs) = ''['' @ str_join '','' (map (compact_json L) xs) @ '']''"
| "compact_json L (PTuple xs) = ''['' @ str_join '','' (map (compact_json L) xs) @ '']''"
| "compact_json L (PDict kvs) =
     ''{'' @ str_join '','' (map (\<lambda>(k, v). json_string L k @ '':'' @ compact_json L v) kvs) @ ''}''"

text \<open>The signer's result, the dict \<open>{"time": ..., "sign": ...}\<close>.\<close>

record signature =
  sig_time :: string
  sig_sign :: string

text \<open>
  \<open>mexc_crypto\<close>. The clock reading \<open>int(time.time() * 1000)\<close> is the argument \<open>now_ms\<close>.
\<close>

definition mexc_crypto :: "pylib \<Rightarrow> int \<Rightarrow> string \<Rightarrow> pyval \<Rightarrow> signature" where
  "mexc_crypto L now_ms key obj =
     (let date_now = str_int now_ms;
          g = drop 7 (md5_hexdigest L (key @ date_now));
          s = json_dumps L '','' '':'' obj;
          sign = md5_hexdigest L (date_now @ s @ g)
      in \<lparr>sig_time = date_now, sig_sign = sign\<rparr>)"

text \<open>
  A \<open>Dict[str, str]\<close> of headers: \<open>d[k] = v\<close> replaces the value of a key in place or
  appends the key, \<open>d.update(e)\<close> stores the items of \<open>e\<close> one by one.
\<close>

fun dict_set :: "string \<Rightarrow> 'a \<Rightarrow> (string \<times> 'a) list \<Rightarrow> (string \<times> 'a) list" where
  "dict_set k v [] = [(k, v)]"
| "dict_set k v ((k', v') # kvs) =
     (if k' = k then (k, v) # kvs else (k', v') # dict_set k v kvs)"

definition dict_update :: "(string \<times> 'a) list \<Rightarrow> (string \<times> 'a) list \<Rightarrow> (string \<times> 'a) list" where
  "dict_update d e = fold (\<lambda>(k, v). dict_set k v) e d"

record sdk_options =
  auth_token :: string
  user_agent :: "string option"
  custom_headers :: "(string \<times> string) list"

definition SDKOptions ::
  "string \<Rightarrow> string option \<Rightarrow> (string \<times> string) list option \<Rightarrow> sdk_options" where
  "SDKOptions token ua custom =
     \<lparr>auth_token = token, user_agent = ua,
      custom_headers = (case custom of None \<Rightarrow> [] | Some d \<Rightarrow> d)\<rparr>"

text \<open>
  \<open>generate_headers\<close>. The constant \<open>DEFAULT_HEADERS\<close> of \<open>utils/constants.py\<close> is the
  argument \<open>default_headers\<close>; a request without a body has \<open>request_body = PNone\<close>.
\<close>

definition generate_headers ::
  "pylib \<Rightarrow> (string \<times> string) list \<Rightarrow> int \<Rightarrow> sdk_options \<Rightarrow> bool \<Rightarrow> pyval \<Rightarrow>
   (string \<times> string) list" where
  "generate_headers L default_headers now_ms options include_auth request_body =
     (let h0 = default_headers;
          h1 = (case user_agent options of
                  Some ua \<Rightarrow> if ua \<noteq> [] then dict_set ''user-agent'' ua h0 else h0
                | None \<Rightarrow> h0);
          h2 = dict_update h1 (custom_headers options)
      in if include_auth then
           (let h3 = dict_set ''authorization'' (auth_token options) h2
            in if request_body \<noteq> PNone then
                 (let sg = mexc_crypto L now_ms (auth_token options) request_body
                  in dict_set ''x-mxc-sign'' (sig_sign sg)
                       (dict_set ''x-mxc-nonce'' (sig_time sg) h3))
               else h3)
         else h2)"

text \<open>
  The header builder in the specification's words, as a map: the defaults, overlaid by
  the user agent when one is given, then by the custom headers, then by the token when
  authentication is required, then by the two signature fields when authentication is
  required and a body is present.
\<close>

definition overlay_headers ::
  "pylib \<Rightarrow> (string \<times> string) list \<Rightarrow> int \<Rightarrow> sdk_options \<Rightarrow> bool \<Rightarrow> pyval \<Rightarrow>
   (string \<rightharpoonup> string)" where
  "overlay_headers L default_headers now_ms options include_auth request_body =
     (let m0 = map_of default_headers;
          m1 = (case user_agent options of Some ua \<Rightarrow> m0(''user-agent'' \<mapsto> ua) | None \<Rightarrow> m0);
          m2 = m1 ++ map_of (rev (custom_headers options));
          m3 = (if include_auth then m2(''authorization'' \<mapsto> auth_token options) else m2)
      in if include_auth \<and> request_body \<noteq> PNone
         then m3(''x-mxc-nonce'' \<mapsto> sig_time (mexc_crypto L now_ms (auth_token options) request_body),
                  ''x-mxc-sign'' \<mapsto> sig_sign (mexc_crypto L now_ms (auth_token options) request_body))
         else m3)"

section \<open>Built-in conversions and field validation\<close>



text \<open>
  The validation library's fields, in its default (lax) mode, on Python input: what a
  field of each type accepts and the value it stores; \<open>None\<close> is a rejected input.
  A \<open>float\<close> field takes an integer as \<open>float\<close> does and rejects one that is out of
  range. An \<open>int\<close> field takes a float without fractional part strictly between
  \<open>-2^63\<close> and \<open>2^63\<close>. A \<open>Literal\<close> of integers accepts every value equal (\<open>==\<close>) to
  one of them, so also \<open>True\<close> and \<open>1.0\<close> for 1, and stores that integer.
\<close>

definition pyd_float :: "pylib \<Rightarrow> pyval \<Rightarrow> pyfloat option" where
  "pyd_float L v =
     (case v of
        PFloat f \<Rightarrow> Some f
      | PInt n \<Rightarrow>
          if \<bar>n\<bar> \<le> 9007199254740992 then Some (Finite (of_int n)) else float_of_int L n
      | PBool b \<Rightarrow> Some (Finite (if b then 1 else 0))
      | PStr s \<Rightarrow> pyd_float_of_str L s
      | _ \<Rightarrow> None)"

definition pyd_int :: "pylib \<Rightarrow> pyval \<Rightarrow> int option" where
  "pyd_int L v =
     (case v of
        PInt n \<Rightarrow> Some n
      | PBool b \<Rightarrow> Some (if b then 1 else 0)
      | PFloat f \<Rightarrow>
          (case f of
             Finite r \<Rightarrow>
               if of_int \<lfloor>r\<rfloor> = r \<and> - 9223372036854775808 < r \<and> r < 9223372036854775808
               then Some \<lfloor>r\<rfloor> else None
           | _ \<Rightarrow> None)
      | PStr s \<Rightarrow> pyd_int_of_str L s
      | _ \<Rightarrow> None)"

definition pyd_str :: "pyval \<Rightarrow> string option" where
  "pyd_str v = (case v of PStr s \<Rightarrow> Some s | _ \<Rightarrow> None)"

definition pyd_bool :: "pyval \<Rightarrow> bool option" where
  "pyd_bool v =
     (case v of
        PBool b \<Rightarrow> Some b
      | PInt n \<Rightarrow> if n = 0 then Some False else if n = 1 then Some True else None
      | PFloat f \<Rightarrow>
          if f = Finite 0 then Some False else if f = Finite 1 then Some True else None
      | PStr s \<Rightarrow>
          if str_lower s \<in> set [''0'', ''off'', ''f'', ''false'', ''n'', ''no''] then Some False
          else if str_lower s \<in> set [''1'', ''on'', ''t'', ''true'', ''y'', ''yes''] then Some True
          else None
      | _ \<Rightarrow> None)"

definition pyd_literal :: "int list \<Rightarrow> pyval \<Rightarrow> int option" where
  "pyd_literal allowed v = find (py_eq_int v) allowed"

definition pyd_optional :: "(pyval \<Rightarrow> 'a option) \<Rightarrow> pyval \<Rightarrow> 'a option option" where
  "pyd_optional f v = (if v = PNone then Some None else map_option Some (f v))"

definition pyd_list :: "(pyval \<Rightarrow> 'a option) \<Rightarrow> pyval \<Rightarrow> 'a list option" where
  "pyd_list f v =
     (case v of PList xs \<Rightarrow> those (map f xs) | PTuple xs \<Rightarrow> those (map f xs) | _ \<Rightarrow> None)"

text \<open>
  A model is built from keyword arguments: a required field must be given, a field
  declared \<open>Optional[...] = None\<close> is \<open>None\<close> when it is not, other keywords are ignored.
  When a field fails, the constructor raises the validation error that names every
  field that failed.
\<close>

definition required :: "(string \<times> pyval) list \<Rightarrow> string \<Rightarrow> (pyval \<Rightarrow> 'a option) \<Rightarrow> 'a option" where
  "required kw name f = (case map_of kw name of None \<Rightarrow> None | Some v \<Rightarrow> f v)"

definition defaulted ::
  "(string \<times> pyval) list \<Rightarrow> string \<Rightarrow> (pyval \<Rightarrow> 'a option) \<Rightarrow> 'a option option" where
  "defaulted kw name f = (case map_of kw name of None \<Rightarrow> Some None | Some v \<Rightarrow> pyd_optional f v)"

definition failed :: "(string \<times> bool) list \<Rightarrow> string list" where
  "failed checks = map fst (filter (\<lambda>(name, ok). \<not> ok) checks)"

definition raise_validation :: "string list + 'a \<Rightarrow> raised + 'a" where
  "raise_validation r = (case r of Inl errs \<Rightarrow> Inl (ValidationError errs) | Inr m \<Rightarrow> Inr m)"

text \<open>\<open>Model(**data)\<close> for a decoded response: only a dict can be unpacked.\<close>

definition construct :: "((string \<times> pyval) list \<Rightarrow> string list + 'a) \<Rightarrow> pyval \<Rightarrow> raised + 'a" where
  "construct model data =
     (case data of PDict kw \<Rightarrow> raise_validation (model kw) | _ \<Rightarrow> Inl TypeError)"

text \<open>A field whose type is a model: a dict is validated into the model.\<close>

definition pyd_model :: "((string \<times> pyval) list \<Rightarrow> string list + 'a) \<Rightarrow> pyval \<Rightarrow> 'a option" where
  "pyd_model model v =
     (case v of
        PDict kw \<Rightarrow> (case model kw of Inl errs \<Rightarrow> None | Inr m \<Rightarrow> Some m)
      | _ \<Rightarrow> None)"

section \<open>Market types (types/market.py)\<close>






section \<open>Order types (types/orders.py)\<close>

record order =
  o_id :: string
  o_symbol :: string
  o_side :: int
  o_type :: string
  o_vol :: pyfloat
  o_price :: string
  o_leverage :: int
  o_status :: string
  o_createTime :: int
  o_updateTime :: int

definition Order :: "pylib \<Rightarrow> (string \<times> pyval) list \<Rightarrow> string list + order" where
  "Order L kw =
     (let i = required kw ''id'' pyd_str;
          sy = required kw ''symbol'' pyd_str;
          sd = required kw ''side'' (pyd_int L);
          ty = required kw ''type'' pyd_str;
          vo = required kw ''vol'' (pyd_float L);
          pr = required kw ''price'' pyd_str;
          le = required kw ''leverage'' (pyd_int L);
          st = required kw ''status'' pyd_str;
          ct = required kw ''createTime'' (pyd_int L);
          ut = required kw ''updateTime'' (pyd_int L);
          errs = failed
            [(''id'', i \<noteq> None), (''symbol'', sy \<noteq> None), (''side'', sd \<noteq> None),
             (''type'', ty \<noteq> None), (''vol'', vo \<noteq> None), (''price'', pr \<noteq> None),
             (''leverage'', le \<noteq> None), (''status'', st \<noteq> None),
             (''createTime'', ct \<noteq> None), (''updateTime'', ut \<noteq> None)]
      in if errs = [] then
           Inr \<lparr>o_id = the i, o_symbol = the sy, o_side = the sd, o_type = the ty,
                o_vol = the vo, o_price = the pr, o_leverage = the le, o_status = the st,
                o_createTime = the ct, o_updateTime = the ut\<rparr>
         else Inl errs)"

record order_history_data =
  ohd_orders :: "order list"
  ohd_total :: int

definition OrderHistoryData ::
  "pylib \<Rightarrow> (string \<times> pyval) list \<Rightarrow> string list + order_history_data" where
  "OrderHistoryData L kw =
     (let os = required kw ''orders'' (pyd_list (pyd_model (Order L)));
          t = required kw ''total'' (pyd_int L);
          errs = failed [(''orders'', os \<noteq> None), (''total'', t \<noteq> None)]
      in if errs = [] then Inr \<lparr>ohd_orders = the os, ohd_total = the t\<rparr> else Inl errs)"

text \<open>
  \<open>OrderHistoryResponse.validate_data\<close>, which runs on the raw \<open>data\<close> before the field's
  own validation: it returns a built value for the empty list and the raw value
  otherwise. The field then takes a built value as it is.
\<close>

definition validate_data :: "pyval \<Rightarrow> pyval + order_history_data" where
  "validate_data v = (if v = PList [] then Inr \<lparr>ohd_orders = [], ohd_total = 0\<rparr> else Inl v)"

definition data_field :: "pylib \<Rightarrow> pyval + order_history_data \<Rightarrow> order_history_data option option" where
  "data_field L x =
     (case x of
        Inr d \<Rightarrow> Some (Some d)
      | Inl v \<Rightarrow> pyd_optional (pyd_model (OrderHistoryData L)) v)"

record order_history_response =
  ohr_success :: bool
  ohr_code :: int
  ohr_data :: "order_history_data option"

definition OrderHistoryResponse ::
  "pylib \<Rightarrow> (string \<times> pyval) list \<Rightarrow> string list + order_history_response" where
  "OrderHistoryResponse L kw =
     (let s = required kw ''success'' pyd_bool;
          c = required kw ''code'' (pyd_int L);
          d = (case map_of kw ''data'' of
                 None \<Rightarrow> Some None
               | Some v \<Rightarrow> data_field L (validate_data v));
          errs = failed [(''success'', s \<noteq> None), (''code'', c \<noteq> None), (''data'', d \<noteq> None)]
      in if errs = [] then Inr \<lparr>ohr_success = the s, ohr_code = the c, ohr_data = the d\<rparr>
         else Inl errs)"





record submit_order_request =
  sor_symbol :: string
  sor_price :: pyfloat
  sor_vol :: pyfloat
  sor_leverage :: "int option"
  sor_side :: int
  sor_type :: int
  sor_openType :: int
  sor_positionId :: "int option"
  sor_externalOid :: "string option"
  sor_stopLossPrice :: "pyfloat option"
  sor_takeProfitPrice :: "pyfloat option"
  sor_positionMode :: "int option"
  sor_reduceOnly :: "bool option"

definition SubmitOrderRequest ::
  "pylib \<Rightarrow> (string \<times> pyval) list \<Rightarrow> string list + submit_order_request" where
  "SubmitOrderRequest L kw =
     (let sy = required kw ''symbol'' pyd_str;
          pr = required kw ''price'' (pyd_float L);
          vo = required kw ''vol'' (pyd_float L);
          le = defaulted kw ''leverage'' (pyd_int L);
          sd = required kw ''side'' (pyd_literal [1, 2, 3, 4]);
          ty = required kw ''type'' (pyd_literal [1, 2, 3, 4, 5, 6]);
          ot = required kw ''openType'' (pyd_literal [1, 2]);
          pi = defaulted kw ''positionId'' (pyd_int L);
          eo = defaulted kw ''externalOid'' pyd_str;
          sl = defaulted kw ''stopLossPrice'' (pyd_float L);
          tp = defaulted kw ''takeProfitPrice'' (pyd_float L);
          pm = defaulted kw ''positionMode'' (pyd_literal [1, 2]);
          ro = defaulted kw ''reduceOnly'' pyd_bool;
          errs = failed
            [(''symbol'', sy \<noteq> None), (''price'', pr \<noteq> None), (''vol'', vo \<noteq> None),
             (''leverage'', le \<noteq> None), (''side'', sd \<noteq> None), (''type'', ty \<noteq> None),
             (''openType'', ot \<noteq> None), (''positionId'', pi \<noteq> None),
             (''externalOid'', eo \<noteq> None), (''stopLossPrice'', sl \<noteq> None),
             (''takeProfitPrice'', tp \<noteq> None), (''positionMode'', pm \<noteq> None),
             (''reduceOnly'', ro \<noteq> None)]
      in if errs = [] then
           Inr \<lparr>sor_symbol = the sy, sor_price = the pr, sor_vol = the vo, sor_leverage = the le,
                sor_side = the sd, sor_type = the ty, sor_openType = the ot,
                sor_positionId = the pi, sor_externalOid = the eo, sor_stopLossPrice = the sl,
                sor_takeProfitPrice = the tp, sor_positionMode = the pm,
                sor_reduceOnly = the ro\<rparr>
         else Inl errs)"

definition opt_val :: "('a \<Rightarrow> pyval) \<Rightarrow> 'a option \<Rightarrow> pyval" where
  "opt_val f x = (case x of None \<Rightarrow> PNone | Some y \<Rightarrow> f y)"

text \<open>\<open>model_dump()\<close> of an order request: every field, in the order of declaration.\<close>

definition model_dump :: "submit_order_request \<Rightarrow> pyval" where
  "model_dump m =
     PDict
       [(''symbol'', PStr (sor_symbol m)), (''price'', PFloat (sor_price m)),
        (''vol'', PFloat (sor_vol m)), (''leverage'', opt_val PInt (sor_leverage m)),
        (''side'', PInt (sor_side m)), (''type'', PInt (sor_type m)),
        (''openType'', PInt (sor_openType m)), (''positionId'', opt_val PInt (sor_positionId m)),
        (''externalOid'', opt_val PStr (sor_externalOid m)),
        (''stopLossPrice'', opt_val PFloat (sor_stopLossPrice m)),
        (''takeProfitPrice'', opt_val PFloat (sor_takeProfitPrice m)),
        (''positionMode'', opt_val PInt (sor_positionMode m)),
        (''reduceOnly'', opt_val PBool (sor_reduceOnly m))]"

record submit_order_response =
  sr_success :: bool
  sr_code :: int
  sr_message :: "string option"
  sr_data :: "int option"

definition SubmitOrderResponse ::
  "pylib \<Rightarrow> (string \<times> pyval) list \<Rightarrow> string list + submit_order_response" where
  "SubmitOrderResponse L kw =
     (let s = required kw ''success'' pyd_bool;
          c = required kw ''code'' (pyd_int L);
          m = defaulted kw ''message'' pyd_str;
          d = defaulted kw ''data'' (pyd_int L);
          errs = failed [(''success'', s \<noteq> None), (''code'', c \<noteq> None),
                         (''message'', m \<noteq> None), (''data'', d \<noteq> None)]
      in if errs = [] then
           Inr \<lparr>sr_success = the s, sr_code = the c, sr_message = the m, sr_data = the d\<rparr>
         else Inl errs)"

section \<open>The client (client.py)\<close>

text \<open>
  A call of the client either returns or raises, and it sends HTTP requests: every
  method returns its outcome together with the list of the requests it sent, in order.
  The transport \<open>cl_send\<close> stands for sending a request, \<open>raise_for_status\<close> and decoding
  the body: it gives the decoded body or the exception raised. The endpoint paths of
  \<open>utils/constants.py\<close> and the clock reading are fields of the client. Logging is left
  out.
\<close>

record http_request =
  rq_method :: string
  rq_url :: string
  rq_params :: pyval
  rq_json :: pyval
  rq_headers :: "(string \<times> string) list"

datatype failure = Domain mexc_error | Escaped raised

record client =
  cl_lib :: pylib
  cl_default_headers :: "(string \<times> string) list"
  cl_submit_order_endpoint :: string
  cl_cancel_order_endpoint :: string
  cl_options :: sdk_options
  cl_now_ms :: int
  cl_send :: "http_request \<Rightarrow> py_exception + pyval"

definition upper_char :: "char \<Rightarrow> char" where
  "upper_char c =
     (if 97 \<le> (of_char c :: nat) \<and> (of_char c :: nat) \<le> 122
      then char_of ((of_char c :: nat) - 32) else c)"

definition str_upper :: "string \<Rightarrow> string" where
  "str_upper s = map upper_char s"

definition request ::
  "client \<Rightarrow> string \<Rightarrow> string \<Rightarrow> pyval \<Rightarrow> pyval \<Rightarrow> bool \<Rightarrow>
   (failure + pyval) \<times> http_request list" where
  "request C method endpoint params json_data require_auth =
     (let hs = generate_headers (cl_lib C) (cl_default_headers C) (cl_now_ms C) (cl_options C)
                 require_auth json_data;
          rq = \<lparr>rq_method = method, rq_url = endpoint, rq_params = params,
                rq_json = json_data, rq_headers = hs\<rparr>
      in (case cl_send C rq of
            Inr data \<Rightarrow> Inr data
          | Inl error \<Rightarrow>
              (case parse_httpx_error (cl_lib C) error (Some endpoint) (Some (str_upper method)) of
                 Inr e \<Rightarrow> Inl (Domain e)
               | Inl x \<Rightarrow> Inl (Escaped x)),
          [rq]))"

definition parsed :: "raised + 'a \<Rightarrow> failure + 'a" where
  "parsed r = (case r of Inl x \<Rightarrow> Inl (Escaped x) | Inr m \<Rightarrow> Inr m)"

datatype order_input = OrderDict "(string \<times> pyval) list" | OrderModel submit_order_request

definition submit_order ::
  "client \<Rightarrow> order_input \<Rightarrow> (failure + submit_order_response) \<times> http_request list" where
  "submit_order C order_params =
     (case (case order_params of
              OrderDict kw \<Rightarrow> SubmitOrderRequest (cl_lib C) kw
            | OrderModel m \<Rightarrow> Inr m) of
        Inl errs \<Rightarrow>
          (Inl (Domain (MexcValidationError
                  (PStr (''Invalid order parameters: '' @ pyd_error_str (cl_lib C) errs)) None)),
           [])
      | Inr m \<Rightarrow>
          (case request C ''POST'' (cl_submit_order_endpoint C) PNone (model_dump m) True of
             (Inl f, sent) \<Rightarrow> (Inl f, sent)
           | (Inr data, sent) \<Rightarrow>
               (parsed (construct (SubmitOrderResponse (cl_lib C)) data), sent)))"


section \<open>Properties of the error classes\<close>

text \<open>
  C9. An authentication error built by its constructor has the code \<open>"AUTH_ERROR"\<close> and
  the status 401, whatever message and cause it is given. Its code is a string, so the
  test \<open>code == 401\<close> of the user-facing message fails: the message is always the
  fall-back text "Authentication error: ..." and never the token-expired text.
\<close>

theorem auth_error_code_and_message:
  "code (MexcAuthenticationError m orig) = PStr ''AUTH_ERROR''
   \<and> status (MexcAuthenticationError m orig) = Some 401
   \<and> auth_user_friendly_message L (MexcAuthenticationError m orig)
       = cross_mark @ '' Authentication error: ''
           @ py_str L (message (MexcAuthenticationError m orig))
   \<and> auth_user_friendly_message L (MexcAuthenticationError m orig) \<noteq> auth_expired_text"
  by (simp add: MexcAuthenticationError_def MexcFuturesError_def auth_user_friendly_message_def
      py_eq_int_def auth_expired_text_def)

theorem auth_error_code_and_message_witness:
  "\<forall>L. code (MexcAuthenticationError PNone None) = PStr ''AUTH_ERROR''
     \<and> status (MexcAuthenticationError PNone None) = Some 401
     \<and> auth_user_friendly_message L (MexcAuthenticationError PNone None) \<noteq> auth_expired_text"
  using auth_error_code_and_message [of PNone None] by blast

section \<open>Properties of the error classifier\<close>

lemma int_of_str_5: "int_of_str L ''5'' = Some 5"
proof -
  have "short_ascii ''5''" and "ascii_int_of_str ''5'' = Some 5"
    by code_simp+
  then show ?thesis by (simp add: int_of_str_def)
qed

lemma int_of_str_http_date: "int_of_str L ''Wed, 21 Oct 2015 07:28:00 GMT'' = None"
proof -
  have "short_ascii ''Wed, 21 Oct 2015 07:28:00 GMT''"
    and "ascii_int_of_str ''Wed, 21 Oct 2015 07:28:00 GMT'' = None"
    by code_simp+
  then show ?thesis by (simp add: int_of_str_def)
qed

lemma headers_get_http_date:
  "headers_get [(''retry-after'', ''Wed, 21 Oct 2015 07:28:00 GMT'')] ''retry-after''
   = Some ''Wed, 21 Oct 2015 07:28:00 GMT''"
  by code_simp

lemma headers_get_5: "headers_get [(''Retry-After'', ''5'')] ''retry-after'' = Some ''5''"
  by code_simp

text \<open>
  What the classifier does with every status 429: the rate-limit error carries the
  parsed header, carries nothing when the header is absent or empty, and the
  \<open>ValueError\<close> of \<open>int\<close> escapes when the header is not an integer.
\<close>

lemma parse_httpx_error_429:
  assumes "status_code resp = 429"
  shows "parse_httpx_error L (HTTPStatusError s resp) endpoint method =
    (let msg = (case json_body resp of
                  Some (PDict kvs) \<Rightarrow> dict_get kvs ''message'' (PStr s)
                | _ \<Rightarrow> PStr s)
     in case headers_get (headers resp) ''retry-after'' of
          None \<Rightarrow> Inr (MexcRateLimitError msg None (Some (HTTPStatusError s resp)))
        | Some ra \<Rightarrow>
            if ra = [] then Inr (MexcRateLimitError msg None (Some (HTTPStatusError s resp)))
            else (case int_of_str L ra of
                    None \<Rightarrow> Inl ValueError
                  | Some n \<Rightarrow>
                      Inr (MexcRateLimitError msg (Some n) (Some (HTTPStatusError s resp)))))"
  using assms
  by (auto simp: parse_httpx_error_def Let_def split: option.splits pyval.splits)

lemma parse_httpx_error_429_retry_after_5:
  "parse_httpx_error L
      (HTTPStatusError ''Too Many Requests''
         \<lparr>status_code = 429, headers = [(''Retry-After'', ''5'')],
          json_body = None, text_body = ''''\<rparr>) None None
   = Inr (MexcRateLimitError (PStr ''Too Many Requests'') (Some 5)
            (Some (HTTPStatusError ''Too Many Requests''
               \<lparr>status_code = 429, headers = [(''Retry-After'', ''5'')],
                json_body = None, text_body = ''''\<rparr>)))"
  by (simp add: parse_httpx_error_429 headers_get_5 int_of_str_5)

lemma parse_httpx_error_429_no_header:
  "parse_httpx_error L
      (HTTPStatusError ''Too Many Requests''
         \<lparr>status_code = 429, headers = [], json_body = None, text_body = ''''\<rparr>) None None
   = Inr (MexcRateLimitError (PStr ''Too Many Requests'') None
            (Some (HTTPStatusError ''Too Many Requests''
               \<lparr>status_code = 429, headers = [], json_body = None, text_body = ''''\<rparr>)))"
  by (simp add: parse_httpx_error_429 headers_get_def)

text \<open>
  C6. A response with status 429 whose \<open>retry-after\<close> header is an HTTP date, which the
  header may be, is not classified: \<open>int(retry_after)\<close> raises \<open>ValueError\<close> and no
  rate-limit error is returned.
\<close>

theorem parse_httpx_error_429_bad_retry_after:
  "\<forall>L. parse_httpx_error L
      (HTTPStatusError ''Too Many Requests''
         \<lparr>status_code = 429, headers = [(''retry-after'', ''Wed, 21 Oct 2015 07:28:00 GMT'')],
          json_body = None, text_body = ''''\<rparr>) None None
    = Inl ValueError"
  by (simp add: parse_httpx_error_def headers_get_http_date int_of_str_http_date)

text \<open>
  C2 (as amended). For every HTTP status error whose status is neither 401 nor 429, the
  classifier returns a signature error when the body decodes to a JSON object whose
  \<open>code\<close> equals 602 or whose message text, in lower case, contains "signature"; and
  also when the body is no JSON object and the text of the exception contains it.
\<close>

theorem parse_httpx_error_signature:
  assumes "status_code resp \<noteq> 401" and "status_code resp \<noteq> 429"
  shows "(json_body resp = Some (PDict kvs)
          \<and> ((\<exists>c. map_of kvs ''code'' = Some c \<and> py_eq_int c 602)
               \<or> str_contains ''signature''
                    (str_lower (py_str L (dict_get kvs ''message'' (PStr s)))))
          \<longrightarrow> parse_httpx_error L (HTTPStatusError s resp) endpoint method
                = Inr (MexcSignatureError (dict_get kvs ''message'' (PStr s))
                         (Some (HTTPStatusError s resp))))
       \<and> ((\<forall>kw. json_body resp \<noteq> Some (PDict kw))
          \<and> str_contains ''signature'' (str_lower s)
          \<longrightarrow> parse_httpx_error L (HTTPStatusError s resp) endpoint method
                = Inr (MexcSignatureError (PStr s) (Some (HTTPStatusError s resp))))"
proof (intro conjI impI)
  assume "json_body resp = Some (PDict kvs)
          \<and> ((\<exists>c. map_of kvs ''code'' = Some c \<and> py_eq_int c 602)
               \<or> str_contains ''signature''
                    (str_lower (py_str L (dict_get kvs ''message'' (PStr s)))))"
  with assms show "parse_httpx_error L (HTTPStatusError s resp) endpoint method
                = Inr (MexcSignatureError (dict_get kvs ''message'' (PStr s))
                         (Some (HTTPStatusError s resp)))"
    by (auto simp: parse_httpx_error_def Let_def dict_get_def)
next
  assume "(\<forall>kw. json_body resp \<noteq> Some (PDict kw))
          \<and> str_contains ''signature'' (str_lower s)"
  with assms show "parse_httpx_error L (HTTPStatusError s resp) endpoint method
                = Inr (MexcSignatureError (PStr s) (Some (HTTPStatusError s resp)))"
    by (auto simp: parse_httpx_error_def Let_def py_str_def split: option.splits pyval.splits)
qed

theorem parse_httpx_error_signature_witness:
  "\<forall>L. kind (projr (parse_httpx_error L
      (HTTPStatusError ''Client error''
         \<lparr>status_code = 400, headers = [],
          json_body = Some (PDict [(''code'', PInt 602), (''message'', PStr ''signature invalid'')]),
          text_body = ''''\<rparr>) None None)) = Signature"
proof
  fix L
  let ?kvs = "[(''code'', PInt 602), (''message'', PStr ''signature invalid'')]"
  let ?r = "\<lparr>status_code = 400, headers = [], json_body = Some (PDict ?kvs), text_body = ''''\<rparr>"
  have "parse_httpx_error L (HTTPStatusError ''Client error'' ?r) None None
         = Inr (MexcSignatureError (dict_get ?kvs ''message'' (PStr ''Client error''))
                  (Some (HTTPStatusError ''Client error'' ?r)))"
    using parse_httpx_error_signature [of ?r ?kvs L "''Client error''" None None]
    by (simp add: py_eq_int_def)
  then show "kind (projr (parse_httpx_error L (HTTPStatusError ''Client error'' ?r) None None))
             = Signature"
    by (simp add: MexcSignatureError_def)
qed

text \<open>
  The claim as stated fails at status 401: the body \<open>{code: 602, message: "signature
  invalid"}\<close> is classified as an authentication error, since the status is tested first.
\<close>

theorem parse_httpx_error_401_not_signature:
  "\<forall>L. parse_httpx_error L
      (HTTPStatusError ''Client error''
         \<lparr>status_code = 401, headers = [],
          json_body = Some (PDict [(''code'', PInt 602), (''message'', PStr ''signature invalid'')]),
          text_body = ''''\<rparr>) None None
    = Inr \<lparr>kind = Authentication, message = PStr ''signature invalid'',
           code = PStr ''AUTH_ERROR'', status = Some 401,
           original_error = Some (HTTPStatusError ''Client error''
             \<lparr>status_code = 401, headers = [],
              json_body = Some (PDict [(''code'', PInt 602),
                                       (''message'', PStr ''signature invalid'')]),
              text_body = ''''\<rparr>)\<rparr>"
  by (simp add: parse_httpx_error_def dict_get_def MexcAuthenticationError_def
      MexcFuturesError_def py_truthy_def)

section \<open>Properties of the signer and the header builder\<close>

lemma json_dumps_compact: "json_dumps L '','' '':'' v = compact_json L v"
proof (induction v)
  case (PDict kvs)
  have eq: "map (\<lambda>(k, v). json_string L k @ '':'' @ json_dumps L '','' '':'' v) kvs
        = map (\<lambda>(k, v). json_string L k @ '':'' @ compact_json L v) kvs"
    by (rule map_cong) (auto simp: PDict.IH)
  show ?case by (simp only: json_dumps.simps compact_json.simps eq)
qed (auto cong: map_cong split: pyfloat.splits)

lemma str_int_example: "str_int 1700000000123 = ''1700000000123''"
  by (simp add: str_int_def str_nat.simps digit_char_def)

text \<open>
  C1. For every token \<open>key\<close>, payload \<open>obj\<close> and clock reading \<open>now_ms\<close>, the signer
  returns the pair whose \<open>time\<close> is the reading in decimal and whose \<open>sign\<close> is the digest
  of \<open>time\<close>, followed by the compact serialisation of the payload, followed by \<open>g\<close>: the
  digest of \<open>key + time\<close> from its eighth character on.
\<close>

theorem mexc_crypto_spec:
  "mexc_crypto L now_ms key obj =
     \<lparr>sig_time = str_int now_ms,
      sig_sign = md5_hexdigest L
        (str_int now_ms @ compact_json L obj
           @ drop 7 (md5_hexdigest L (key @ str_int now_ms)))\<rparr>"
  by (simp add: mexc_crypto_def Let_def json_dumps_compact)

theorem mexc_crypto_spec_witness:
  "\<forall>L. mexc_crypto L 1700000000123 ''WEB0'' (PDict [(''vol'', PInt 2), (''ids'', PList [PInt 7, PNone])]) =
     \<lparr>sig_time = ''1700000000123'',
      sig_sign = md5_hexdigest L
        (''1700000000123'' @ ''{'' @ json_string L ''vol'' @ '':2,'' @ json_string L ''ids''
           @ '':[7,null]}'' @ drop 7 (md5_hexdigest L ''WEB01700000000123''))\<rparr>"
proof
  fix L
  have s7: "str_int 7 = ''7''" and s2: "str_int 2 = ''2''"
    by (simp_all add: str_int_def str_nat.simps digit_char_def)
  show "mexc_crypto L 1700000000123 ''WEB0''
          (PDict [(''vol'', PInt 2), (''ids'', PList [PInt 7, PNone])]) =
     \<lparr>sig_time = ''1700000000123'',
      sig_sign = md5_hexdigest L
        (''1700000000123'' @ ''{'' @ json_string L ''vol'' @ '':2,'' @ json_string L ''ids''
           @ '':[7,null]}'' @ drop 7 (md5_hexdigest L ''WEB01700000000123''))\<rparr>"
    using mexc_crypto_spec [of L 1700000000123 "''WEB0''"
        "PDict [(''vol'', PInt 2), (''ids'', PList [PInt 7, PNone])]"]
    by (simp add: str_int_example s7 s2)
qed

lemma map_of_dict_set: "map_of (dict_set k v kvs) = (map_of kvs)(k \<mapsto> v)"
  by (induction kvs) (auto simp: fun_eq_iff)

lemma map_of_dict_update: "map_of (dict_update d e) = map_of d ++ map_of (rev e)"
  unfolding dict_update_def
proof (induction e arbitrary: d)
  case Nil
  then show ?case by simp
next
  case (Cons x e)
  obtain k v where x: "x = (k, v)" by (cases x)
  show ?case
    by (simp add: x Cons.IH map_of_dict_set map_add_def fun_eq_iff split: option.splits)
qed

text \<open>
  C4 (as amended). For all options, flags and bodies, the headers returned are the
  defaults overlaid in order by the user agent when one is given and is not empty, by the
  custom headers, by the token under \<open>authorization\<close> when authentication is required, and
  by \<open>x-mxc-nonce\<close> and \<open>x-mxc-sign\<close> exactly when authentication is required and a body
  is present. An empty user agent is treated as none.
\<close>

theorem generate_headers_overlay:
  "map_of (generate_headers L D now_ms options include_auth request_body) =
     overlay_headers L D now_ms
       (options\<lparr>user_agent :=
          (if user_agent options = Some [] then None else user_agent options)\<rparr>)
       include_auth request_body"
  by (auto simp: generate_headers_def overlay_headers_def Let_def map_of_dict_set
      map_of_dict_update split: option.splits)

theorem generate_headers_overlay_witness:
  "\<forall>L. map_of (generate_headers L [(''user-agent'', ''sdk''), (''accept'', ''*/*'')] 5
            (SDKOptions ''WEB0'' (Some ''me'') (Some [(''accept'', ''text/plain'')])) True PNone)
       = [''user-agent'' \<mapsto> ''me'', ''accept'' \<mapsto> ''text/plain'', ''authorization'' \<mapsto> ''WEB0'']"
proof
  fix L
  show "map_of (generate_headers L [(''user-agent'', ''sdk''), (''accept'', ''*/*'')] 5
            (SDKOptions ''WEB0'' (Some ''me'') (Some [(''accept'', ''text/plain'')])) True PNone)
       = [''user-agent'' \<mapsto> ''me'', ''accept'' \<mapsto> ''text/plain'', ''authorization'' \<mapsto> ''WEB0'']"
    using generate_headers_overlay [of L "[(''user-agent'', ''sdk''), (''accept'', ''*/*'')]" 5
        "SDKOptions ''WEB0'' (Some ''me'') (Some [(''accept'', ''text/plain'')])" True PNone]
    by (auto simp: overlay_headers_def SDKOptions_def fun_eq_iff map_add_def)
qed

text \<open>
  The claim as stated fails for a user agent that is given but empty: the overlay the
  claim describes would set \<open>user-agent\<close> to the empty string, the code keeps the default.
\<close>

theorem generate_headers_empty_user_agent:
  "\<forall>L. map_of (generate_headers L [(''user-agent'', ''sdk'')] 5
            (SDKOptions ''WEB0'' (Some '''') None) False PNone) ''user-agent'' = Some ''sdk''
     \<and> overlay_headers L [(''user-agent'', ''sdk'')] 5
            (SDKOptions ''WEB0'' (Some '''') None) False PNone ''user-agent'' = Some ''''"
  by (simp add: generate_headers_def overlay_headers_def SDKOptions_def dict_update_def)

section \<open>Properties of the depth entries\<close>








section \<open>Properties of the client\<close>

text \<open>A \<open>Literal\<close> field compares by equality: \<open>True\<close> and \<open>1.0\<close> are taken as 1.\<close>

lemma pyd_literal_equal_values:
  "pyd_literal [1, 2, 3, 4] (PBool True) = Some 1"
  "pyd_literal [1, 2, 3, 4] (PFloat (Finite 1)) = Some 1"
  "pyd_literal [1, 2, 3, 4] (PInt 3) = Some 3"
  "pyd_literal [1, 2, 3, 4] (PStr ''1'') = None"
  "pyd_literal [1, 2, 3, 4] (PInt 0) = None"
  by (simp_all add: pyd_literal_def py_eq_int_def)

lemma side_rejected:
  assumes "map_of kw ''side'' = Some v"
    and "\<not> py_eq_int v 1" and "\<not> py_eq_int v 2" and "\<not> py_eq_int v 3" and "\<not> py_eq_int v 4"
  shows "required kw ''side'' (pyd_literal [1, 2, 3, 4]) = None"
  using assms by (simp add: required_def pyd_literal_def)

lemma SubmitOrderRequest_side:
  assumes "required kw ''side'' (pyd_literal [1, 2, 3, 4]) = None"
  shows "\<exists>errs. ''side'' \<in> set errs \<and> SubmitOrderRequest L kw = Inl errs"
proof -
  let ?errs = "failed
            [(''symbol'', required kw ''symbol'' pyd_str \<noteq> None),
             (''price'', required kw ''price'' (pyd_float L) \<noteq> None),
             (''vol'', required kw ''vol'' (pyd_float L) \<noteq> None),
             (''leverage'', defaulted kw ''leverage'' (pyd_int L) \<noteq> None),
             (''side'', required kw ''side'' (pyd_literal [1, 2, 3, 4]) \<noteq> None),
             (''type'', required kw ''type'' (pyd_literal [1, 2, 3, 4, 5, 6]) \<noteq> None),
             (''openType'', required kw ''openType'' (pyd_literal [1, 2]) \<noteq> None),
             (''positionId'', defaulted kw ''positionId'' (pyd_int L) \<noteq> None),
             (''externalOid'', defaulted kw ''externalOid'' pyd_str \<noteq> None),
             (''stopLossPrice'', defaulted kw ''stopLossPrice'' (pyd_float L) \<noteq> None),
             (''takeProfitPrice'', defaulted kw ''takeProfitPrice'' (pyd_float L) \<noteq> None),
             (''positionMode'', defaulted kw ''positionMode'' (pyd_literal [1, 2]) \<noteq> None),
             (''reduceOnly'', defaulted kw ''reduceOnly'' pyd_bool \<noteq> None)]"
  have mem: "''side'' \<in> set ?errs"
    using assms by (simp add: failed_def)
  then have ne: "?errs \<noteq> []" by auto
  have "SubmitOrderRequest L kw = Inl ?errs"
    unfolding SubmitOrderRequest_def Let_def using ne by (simp only: if_False)
  with mem show ?thesis by blast
qed

text \<open>
  C5. When the order parameters are a dict whose \<open>side\<close> is outside 1, 2, 3, 4, that is
  equal (\<open>==\<close>) to none of them, \<open>submit_order\<close> raises the validation domain error, whose
  message carries the validation library's report naming \<open>side\<close>, and sends no request.
\<close>

theorem submit_order_invalid_side:
  assumes "map_of kw ''side'' = Some v"
    and "\<not> py_eq_int v 1" and "\<not> py_eq_int v 2" and "\<not> py_eq_int v 3" and "\<not> py_eq_int v 4"
  shows "\<exists>errs. ''side'' \<in> set errs \<and>
           submit_order C (OrderDict kw) =
             (Inl (Domain (MexcValidationError
                (PStr (''Invalid order parameters: '' @ pyd_error_str (cl_lib C) errs)) None)),
              [])"
proof -
  obtain errs where "''side'' \<in> set errs" and "SubmitOrderRequest (cl_lib C) kw = Inl errs"
    using SubmitOrderRequest_side [OF side_rejected [OF assms]] by blast
  then show ?thesis by (auto simp: submit_order_def)
qed

theorem submit_order_invalid_side_witness:
  "\<forall>C. snd (submit_order C (OrderDict
           [(''symbol'', PStr ''BTC_USDT''), (''price'', PInt 100), (''vol'', PInt 1),
            (''side'', PInt 5), (''type'', PInt 1), (''openType'', PInt 1)])) = []
       \<and> (\<exists>m. fst (submit_order C (OrderDict
           [(''symbol'', PStr ''BTC_USDT''), (''price'', PInt 100), (''vol'', PInt 1),
            (''side'', PInt 5), (''type'', PInt 1), (''openType'', PInt 1)]))
            = Inl (Domain (MexcValidationError m None)))"
proof
  fix C
  let ?kw = "[(''symbol'', PStr ''BTC_USDT''), (''price'', PInt 100), (''vol'', PInt 1),
            (''side'', PInt 5), (''type'', PInt 1), (''openType'', PInt 1)]"
  have "map_of ?kw ''side'' = Some (PInt 5)" by simp
  moreover have "\<not> py_eq_int (PInt 5) 1" "\<not> py_eq_int (PInt 5) 2"
    "\<not> py_eq_int (PInt 5) 3" "\<not> py_eq_int (PInt 5) 4"
    by (simp_all add: py_eq_int_def)
  ultimately obtain errs where
    "submit_order C (OrderDict ?kw) =
       (Inl (Domain (MexcValidationError
          (PStr (''Invalid order parameters: '' @ pyd_error_str (cl_lib C) errs)) None)), [])"
    using submit_order_invalid_side [of ?kw "PInt 5" C] by blast
  then show "snd (submit_order C (OrderDict ?kw)) = []
       \<and> (\<exists>m. fst (submit_order C (OrderDict ?kw)) = Inl (Domain (MexcValidationError m None)))"
    by (metis fst_conv snd_conv)
qed






section \<open>Properties of the order-history response\<close>

lemma data_field_empty_list:
  "data_field L (validate_data (PList [])) = Some (Some \<lparr>ohd_orders = [], ohd_total = 0\<rparr>)"
  by (simp add: data_field_def validate_data_def)

text \<open>
  C10. When the \<open>data\<close> of an order-history response is the empty list, the parser
  stores the order-history value with no orders and total 0: \<open>data\<close> is never among the
  fields that fail, every response that parses has that value, and the response parses
  whenever its \<open>success\<close> and \<open>code\<close> do.
\<close>

theorem order_history_empty_data:
  assumes "map_of kw ''data'' = Some (PList [])"
  shows "(case OrderHistoryResponse L kw of
            Inl errs \<Rightarrow> ''data'' \<notin> set errs
          | Inr r \<Rightarrow> ohr_data r = Some \<lparr>ohd_orders = [], ohd_total = 0\<rparr>)
         \<and> (\<forall>s c. required kw ''success'' pyd_bool = Some s
                  \<and> required kw ''code'' (pyd_int L) = Some c \<longrightarrow>
               OrderHistoryResponse L kw =
                 Inr \<lparr>ohr_success = s, ohr_code = c,
                      ohr_data = Some \<lparr>ohd_orders = [], ohd_total = 0\<rparr>\<rparr>)"
  using assms
  by (auto simp: OrderHistoryResponse_def Let_def failed_def data_field_empty_list)

theorem order_history_empty_data_witness:
  "\<forall>L. OrderHistoryResponse L
          [(''success'', PBool True), (''code'', PInt 0), (''data'', PList [])]
     = Inr \<lparr>ohr_success = True, ohr_code = 0,
            ohr_data = Some \<lparr>ohd_orders = [], ohd_total = 0\<rparr>\<rparr>"
proof
  fix L
  let ?kw = "[(''success'', PBool True), (''code'', PInt 0), (''data'', PList [])]"
  have d: "map_of ?kw ''data'' = Some (PList [])" by simp
  have s: "required ?kw ''success'' pyd_bool = Some True"
    by (simp add: required_def pyd_bool_def)
  have c: "required ?kw ''code'' (pyd_int L) = Some 0"
    by (simp add: required_def pyd_int_def)
  from order_history_empty_data [OF d, of L] s c
  show "OrderHistoryResponse L ?kw
     = Inr \<lparr>ohr_success = True, ohr_code = 0,
            ohr_data = Some \<lparr>ohd_orders = [], ohd_total = 0\<rparr>\<rparr>"
    by blast
qed

section \<open>Determinism of the signer\<close>

text \<open>
  The decimal text of an integer determines the integer: \<open>str_nat\<close> has a left inverse,
  and its text has digits only, so never the minus sign.
\<close>

lemma digit_cases:
  assumes "k < (10::nat)"
  shows "k \<in> set [0, 1, 2, 3, 4, 5, 6, 7, 8, 9]"
  using assms by auto

lemma digit_val_digit_char: "digit_val (digit_char d) = d mod 10"
proof -
  have "d mod 10 < 10" by simp
  then have "d mod 10 \<in> set [0, 1, 2, 3, 4, 5, 6, 7, 8, 9]" by (rule digit_cases)
  then have "digit_val (''0123456789'' ! (d mod 10)) = d mod 10"
    by (auto simp: digit_val_def)
  then show ?thesis by (simp add: digit_char_def)
qed

lemma is_digit_digit_char: "is_digit (digit_char d)"
proof -
  have "d mod 10 < 10" by simp
  then have "d mod 10 \<in> set [0, 1, 2, 3, 4, 5, 6, 7, 8, 9]" by (rule digit_cases)
  then have "is_digit (''0123456789'' ! (d mod 10))"
    by (auto simp: is_digit_def)
  then show ?thesis by (simp add: digit_char_def)
qed

lemma str_nat_small: "n < 10 \<Longrightarrow> str_nat n = [digit_char n]"
  by (subst str_nat.simps) simp

lemma str_nat_large: "\<not> n < 10 \<Longrightarrow> str_nat n = str_nat (n div 10) @ [digit_char n]"
  by (subst str_nat.simps) simp

lemma str_nat_value: "foldl (\<lambda>a c. 10 * a + digit_val c) 0 (str_nat n) = n"
proof (induction n rule: str_nat.induct)
  case (1 n)
  show ?case
  proof (cases "n < 10")
    case True
    then show ?thesis
      by (simp add: str_nat_small digit_val_digit_char)
  next
    case False
    with "1.IH" show ?thesis
      by (simp add: str_nat_large digit_val_digit_char)
  qed
qed

lemma str_nat_inj: "str_nat m = str_nat n \<Longrightarrow> m = n"
  by (metis str_nat_value)

lemma str_nat_digits: "c \<in> set (str_nat n) \<Longrightarrow> is_digit c"
proof (induction n rule: str_nat.induct)
  case (1 n)
  show ?case
  proof (cases "n < 10")
    case True
    with "1.prems" show ?thesis
      by (simp add: str_nat_small is_digit_digit_char)
  next
    case False
    with "1.prems" "1.IH" show ?thesis
      by (auto simp: str_nat_large is_digit_digit_char)
  qed
qed

lemma str_nat_no_minus: "CHR ''-'' # cs \<noteq> str_nat n"
proof
  assume "CHR ''-'' # cs = str_nat n"
  then have "CHR ''-'' \<in> set (str_nat n)" by (metis list.set_intros(1))
  then have "is_digit CHR ''-''" by (rule str_nat_digits)
  then show False by (simp add: is_digit_def)
qed

lemma str_int_inj: "str_int i = str_int j \<Longrightarrow> i = j"
  by (auto simp: str_int_def str_nat_no_minus str_nat_no_minus [symmetric]
      dest!: str_nat_inj split: if_splits)

text \<open>
  The signer depends on the payload through its serialisation only; a different clock
  reading gives a different \<open>time\<close>; and, when the two inner digests have the same
  length, the texts that the two signatures are digests of differ as well. Whether the
  two digests differ is a matter of the digest function.
\<close>

lemma mexc_crypto_same_body:
  "json_dumps L '','' '':'' obj = json_dumps L '','' '':'' obj' \<Longrightarrow>
   mexc_crypto L now_ms key obj = mexc_crypto L now_ms key obj'"
  by (simp add: mexc_crypto_def)

lemma mexc_crypto_time_changes:
  "n \<noteq> n' \<Longrightarrow> sig_time (mexc_crypto L n key obj) \<noteq> sig_time (mexc_crypto L n' key obj')"
  by (auto simp: mexc_crypto_def Let_def dest: str_int_inj)

lemma signed_text_changes:
  assumes "n \<noteq> n'" and "length g = length g'"
  shows "str_int n @ s @ g \<noteq> str_int n' @ s @ g'"
proof
  assume eq: "str_int n @ s @ g = str_int n' @ s @ g'"
  then have "length (str_int n @ s @ g) = length (str_int n' @ s @ g')" by simp
  with assms(2) have "length (str_int n) = length (str_int n')" by simp
  with eq have "str_int n = str_int n'" by simp
  with assms(1) show False by (auto dest: str_int_inj)
qed

end
